theory Spec2Isabelle
  imports Main
begin

section \<open>Calendar request handler of unibocalendar (main.go)\<close>

text \<open>
  The development embeds the handler \<open>getCoursesCal\<close> of \<open>main.go\<close> with the two
  helpers it calls, \<open>successCalendar\<close> and \<open>createCal\<close>. Everything the handler
  reaches outside \<open>main.go\<close> is either modelled after the library it comes from (the
  decimal parser \<open>strconv.Atoi\<close>, \<open>fmt.Sprintf\<close> for the two verbs used, the
  expiring cache of \<open>go-cache\<close>, the response writer of \<open>gin\<close>) or taken as a
  parameter (the course directory, the timetable source, the conversion of a timetable to
  a calendar and the serializer).
\<close>

subsection \<open>Go values\<close>

type_synonym bytes = string
type_synonym go_error = string

text \<open>Readings of \<open>time.Now().UnixNano()\<close> and durations are integers (nanoseconds).\<close>

type_synonym nanos = int

subsection \<open>strconv.Atoi\<close>

text \<open>
  \<open>Atoi s\<close> is \<open>ParseInt(s, 10, 0)\<close> on a platform whose \<open>int\<close> has 64 bits (the short
  path of \<open>Atoi\<close> for strings of fewer than 19 bytes computes the same result). The digit
  loop of \<open>ParseUint\<close> is followed byte by byte: a byte that is no decimal digit is a
  syntax error, an accumulator that would leave the unsigned 64-bit range is a range error,
  whichever comes first.
\<close>

datatype NumError = ErrSyntax | ErrRange

definition maxUint64 :: int where
  "maxUint64 = 18446744073709551615"

definition is_digit :: "char \<Rightarrow> bool" where
  "is_digit c = (48 \<le> (of_char c :: nat) \<and> (of_char c :: nat) \<le> 57)"

definition digit_val :: "char \<Rightarrow> int" where
  "digit_val c = int (of_char c) - 48"

fun ParseUint_loop :: "int \<Rightarrow> string \<Rightarrow> NumError + int" where
  "ParseUint_loop n [] = Inr n"
| "ParseUint_loop n (c # cs) =
     (if \<not> is_digit c then Inl ErrSyntax
      else if n \<ge> maxUint64 div 10 + 1 then Inl ErrRange
      else if n * 10 + digit_val c > maxUint64 then Inl ErrRange
      else ParseUint_loop (n * 10 + digit_val c) cs)"

definition ParseUint :: "string \<Rightarrow> NumError + int" where
  "ParseUint s = (if s = [] then Inl ErrSyntax else ParseUint_loop 0 s)"

definition ParseInt :: "string \<Rightarrow> NumError + int" where
  "ParseInt s =
     (if s = [] then Inl ErrSyntax
      else
        let neg = (hd s = CHR ''-'');
            s1 = (if hd s = CHR ''+'' \<or> hd s = CHR ''-'' then tl s else s)
        in case ParseUint s1 of
             Inl ErrSyntax \<Rightarrow> Inl ErrSyntax
           | Inl ErrRange \<Rightarrow> Inl ErrRange
           | Inr un \<Rightarrow>
               if \<not> neg \<and> un \<ge> 2 ^ 63 then Inl ErrRange
               else if neg \<and> un > 2 ^ 63 then Inl ErrRange
               else Inr (if neg then - un else un))"

definition Atoi :: "string \<Rightarrow> NumError + int" where
  "Atoi s = ParseInt s"

subsection \<open>fmt.Sprintf, the decimal verb\<close>

fun nat_digits :: "nat \<Rightarrow> string" where
  "nat_digits n =
     (if n < 10 then [char_of (48 + n)]
      else nat_digits (n div 10) @ [char_of (48 + n mod 10)])"

declare nat_digits.simps [simp del]

definition itoa :: "int \<Rightarrow> string" where
  "itoa i = (if i < 0 then CHR ''-'' # nat_digits (nat (- i)) else nat_digits (nat i))"

subsection \<open>The expiring cache (go-cache)\<close>

text \<open>
  An item holds the stored object and the instant after which it no longer counts; an
  expiration of zero or less never expires. \<open>Get\<close> does not remove an expired item, it
  only reports it as not found; the janitor's \<open>DeleteExpired\<close> removes it later.
\<close>

record Item =
  Object :: bytes
  Expiration :: nanos

type_synonym cache = "string \<rightharpoonup> Item"

definition Minute :: nanos where
  "Minute = 60 * 1000000000"

text \<open>\<open>cache.New(time.Minute*10, time.Minute*30)\<close>: the default expiration.\<close>

definition defaultExpiration :: nanos where
  "defaultExpiration = Minute * 10"

definition expired :: "nanos \<Rightarrow> Item \<Rightarrow> bool" where
  "expired now item = (Expiration item > 0 \<and> now > Expiration item)"

definition cache_Get :: "nanos \<Rightarrow> cache \<Rightarrow> string \<Rightarrow> bytes option" where
  "cache_Get now items k =
     (case items k of
        None \<Rightarrow> None
      | Some item \<Rightarrow> if expired now item then None else Some (Object item))"

definition cache_Set :: "nanos \<Rightarrow> cache \<Rightarrow> string \<Rightarrow> bytes \<Rightarrow> cache" where
  "cache_Set now items k x =
     (let e = (if defaultExpiration > 0 then now + defaultExpiration else 0)
      in items(k \<mapsto> \<lparr>Object = x, Expiration = e\<rparr>))"

definition DeleteExpired :: "nanos \<Rightarrow> cache \<Rightarrow> cache" where
  "DeleteExpired now items =
     (\<lambda>k. case items k of
             None \<Rightarrow> None
           | Some item \<Rightarrow> if expired now item then None else Some item)"

subsection \<open>The request context (gin)\<close>

text \<open>
  The part of \<open>gin.Context\<close> the handler touches: the path parameters and the query
  values it reads, and the status, headers, body and error list it writes.
\<close>

record Context =
  Params :: "string \<rightharpoonup> string"
  QueryValues :: "string \<rightharpoonup> string"
  Status :: nat
  Headers :: "string \<rightharpoonup> string"
  Body :: string
  Errors :: "go_error list"

definition Param :: "Context \<Rightarrow> string \<Rightarrow> string" where
  "Param c key = (case Params c key of None \<Rightarrow> [] | Some v \<Rightarrow> v)"

definition Query :: "Context \<Rightarrow> string \<Rightarrow> string" where
  "Query c key = (case QueryValues c key of None \<Rightarrow> [] | Some v \<Rightarrow> v)"

definition Header :: "string \<Rightarrow> string \<Rightarrow> Context \<Rightarrow> Context" where
  "Header key v c =
     (if v = [] then c\<lparr>Headers := (Headers c)(key := None)\<rparr>
      else c\<lparr>Headers := (Headers c)(key \<mapsto> v)\<rparr>)"

text \<open>
  \<open>c.String(code, text)\<close> with no further argument: the status is set, the content type
  becomes plain text unless one is already there, and the text is written as it is. The
  handler is the first to write to the response, so no status has been sent before.
\<close>

definition String :: "nat \<Rightarrow> string \<Rightarrow> Context \<Rightarrow> Context" where
  "String code s c =
     c\<lparr>Status := code,
       Headers := (case Headers c ''Content-Type'' of
                     None \<Rightarrow> (Headers c)(''Content-Type'' \<mapsto> ''text/plain; charset=utf-8'')
                   | Some v \<Rightarrow> Headers c),
       Body := Body c @ s\<rparr>"

definition Error :: "go_error \<Rightarrow> Context \<Rightarrow> Context" where
  "Error err c = c\<lparr>Errors := Errors c @ [err]\<rparr>"

definition StatusOK :: nat where "StatusOK = 200"
definition StatusBadRequest :: nat where "StatusBadRequest = 400"
definition StatusNotFound :: nat where "StatusNotFound = 404"
definition StatusInternalServerError :: nat where "StatusInternalServerError = 500"

subsection \<open>The collaborators of package unibo and the calendar library\<close>

text \<open>
  Of \<open>unibo.Course\<close> the handler reads the description and the duration in years; of
  \<open>unibo.Curriculum\<close> it writes the value. The calendar of the \<open>ics\<close> library is a
  document with a name, a description and the components made from the timetable.
\<close>

record Course =
  Descrizione :: string
  DurataAnni :: int

record Curriculum =
  Value :: string

record 'c Calendar =
  CalName :: string
  CalDescription :: string
  Components :: 'c

definition SetName :: "string \<Rightarrow> 'c Calendar \<Rightarrow> 'c Calendar" where
  "SetName s cal = cal\<lparr>CalName := s\<rparr>"

definition SetDescription :: "string \<Rightarrow> 'c Calendar \<Rightarrow> 'c Calendar" where
  "SetDescription s cal = cal\<lparr>CalDescription := s\<rparr>"

text \<open>
  What stays the same from one request to the next: the course directory handed to
  \<open>getCoursesCal\<close>, the conversion \<open>Timetable.ToICS\<close> and \<open>Calendar.SerializeTo\<close>.
\<close>

record ('tt, 'c) deps =
  courses :: "int \<rightharpoonup> Course"
  ToICS :: "'tt \<Rightarrow> 'c Calendar"
  SerializeTo :: "'c Calendar \<Rightarrow> go_error + bytes"

definition FindById :: "('tt, 'c) deps \<Rightarrow> int \<Rightarrow> Course option" where
  "FindById d i = courses d i"

text \<open>
  What a single request meets: the clock as read by the cache's \<open>Get\<close> and, later, by
  its \<open>Set\<close>, and the answer of the timetable source at that moment.
\<close>

record 'tt world =
  now_get :: nanos
  now_set :: nanos
  GetTimetable :: "Course \<Rightarrow> int \<Rightarrow> Curriculum \<Rightarrow> go_error + 'tt"

subsection \<open>main.go\<close>

definition successCalendar :: "Context \<Rightarrow> bytes \<Rightarrow> Context" where
  "successCalendar c cal =
     String StatusOK cal
       (Header ''Access-Control-Allow-Methods'' ''GET, HEAD, OPTIONS''
         (Header ''Access-Control-Allow-Headers''
                 ''Content-Type, Content-Length, Accept-Encoding, Authorization''
           (Header ''Access-Control-Allow-Origin'' ''*''
             (Header ''Content-Disposition'' ''attachment; filename=lezioni.ics''
               (Header ''Content-Type'' ''text/calendar; charset=utf-8'' c)))))"

definition createCal :: "('tt, 'c) deps \<Rightarrow> 'tt \<Rightarrow> Course \<Rightarrow> int \<Rightarrow> 'c Calendar" where
  "createCal d timetable course year =
     SetDescription
       (''Orario delle lezioni del '' @ itoa year @ '' anno del corso di '' @ Descrizione course)
       (SetName (Descrizione course @ '' - '' @ itoa year @ '' year'')
         (ToICS d timetable))"

text \<open>The calls the handler makes to the cache, the directory and the timetable source.\<close>

datatype event =
  CacheGet string
| CacheSet string bytes
| DirectoryFind int
| TimetableFetch Course int Curriculum

definition getCoursesCal ::
  "('tt, 'c) deps \<Rightarrow> 'tt world \<Rightarrow> cache \<Rightarrow> Context \<Rightarrow> cache \<times> Context \<times> event list" where
  "getCoursesCal d w calcache c =
     (let ident = Param c ''id'';
          anno = Param c ''anno'';
          cacheKey = ident @ ''-'' @ anno
      in case cache_Get (now_get w) calcache cacheKey of
           Some cal \<Rightarrow> (calcache, successCalendar c cal, [CacheGet cacheKey])
         | None \<Rightarrow>
      (case Atoi anno of
         Inl err \<Rightarrow>
           (calcache, String StatusBadRequest ''Invalid year'' c, [CacheGet cacheKey])
       | Inr annoInt \<Rightarrow>
      (case Atoi ident of
         Inl err \<Rightarrow>
           (calcache, String StatusBadRequest ''Invalid id'' c, [CacheGet cacheKey])
       | Inr idInt \<Rightarrow>
      (case FindById d idInt of
         None \<Rightarrow>
           (calcache, String StatusNotFound ''Course not found'' c,
            [CacheGet cacheKey, DirectoryFind idInt])
       | Some course \<Rightarrow>
      if annoInt \<le> 0 \<or> annoInt > DurataAnni course then
        (calcache, String StatusBadRequest ''Invalid year'' c,
         [CacheGet cacheKey, DirectoryFind idInt])
      else
       (let curriculumId = Query c ''curriculum'';
            curriculum = (if curriculumId \<noteq> [] then \<lparr>Value = curriculumId\<rparr>
                          else \<lparr>Value = []\<rparr>)
        in case GetTimetable w course annoInt curriculum of
             Inl err \<Rightarrow>
               (calcache,
                String StatusInternalServerError ''Unable to retrieve timetable'' (Error err c),
                [CacheGet cacheKey, DirectoryFind idInt,
                 TimetableFetch course annoInt curriculum])
           | Inr timetable \<Rightarrow>
        (case SerializeTo d (createCal d timetable course annoInt) of
           Inl err \<Rightarrow>
             (calcache,
              String StatusInternalServerError ''Unable to serialize calendar'' (Error err c),
              [CacheGet cacheKey, DirectoryFind idInt,
               TimetableFetch course annoInt curriculum])
         | Inr buf \<Rightarrow>
             (cache_Set (now_set w) calcache cacheKey buf, successCalendar c buf,
              [CacheGet cacheKey, DirectoryFind idInt,
               TimetableFetch course annoInt curriculum, CacheSet cacheKey buf])))))))"

subsection \<open>Vocabulary for the properties\<close>

text \<open>The cache key and the curriculum value the handler derives from a request.\<close>

abbreviation requestKey :: "Context \<Rightarrow> string" where
  "requestKey c \<equiv> Param c ''id'' @ ''-'' @ Param c ''anno''"

abbreviation requestCurriculum :: "Context \<Rightarrow> Curriculum" where
  "requestCurriculum c \<equiv>
     (if Query c ''curriculum'' \<noteq> [] then \<lparr>Value = Query c ''curriculum''\<rparr>
      else \<lparr>Value = []\<rparr>)"

text \<open>
  \<open>synthesized d k buf\<close>: the bytes \<open>buf\<close> are the serialization of a calendar that
  \<open>createCal\<close> built for the course and year the key \<open>k\<close> names, with both path strings
  numeric, the course in the directory and the year within its duration.
\<close>

definition synthesized :: "('tt, 'c) deps \<Rightarrow> string \<Rightarrow> bytes \<Rightarrow> bool" where
  "synthesized d k buf =
     (\<exists>ident anno idInt annoInt course timetable.
        k = ident @ ''-'' @ anno \<and>
        Atoi ident = Inr idInt \<and> Atoi anno = Inr annoInt \<and>
        FindById d idInt = Some course \<and>
        0 < annoInt \<and> annoInt \<le> DurataAnni course \<and>
        SerializeTo d (createCal d timetable course annoInt) = Inr buf)"

text \<open>
  The cache states the server can be in: \<open>calcache\<close> starts empty, and it changes only
  through requests to the handler (at any time, with any answer of the timetable source)
  and through the janitor's sweeps. Requests run side by side: the \<open>Set\<close> of a run
  whose lookup saw an earlier state may land on the state other runs have produced since
  (rule \<open>reachable_overlap\<close>).
\<close>

inductive reachable :: "('tt, 'c) deps \<Rightarrow> cache \<Rightarrow> bool" for d :: "('tt, 'c) deps" where
  reachable_new: "reachable d Map.empty"
| reachable_request: "reachable d calcache \<Longrightarrow> reachable d (fst (getCoursesCal d w calcache c))"
| reachable_sweep: "reachable d calcache \<Longrightarrow> reachable d (DeleteExpired now calcache)"
| reachable_overlap:
    "reachable d calcache \<Longrightarrow> reachable d calcache0 \<Longrightarrow>
     CacheSet k buf \<in> set (snd (snd (getCoursesCal d w calcache0 c))) \<Longrightarrow>
     reachable d (cache_Set (now_set w) calcache k buf)"

subsection \<open>A small instance\<close>

text \<open>
  One course, number 42, lasting three years; timetables and calendar components are plain
  strings; the timetable source answers with a text naming the curriculum it was asked for.
\<close>

definition informatica :: Course where
  "informatica = \<lparr>Descrizione = ''Informatica'', DurataAnni = 3\<rparr>"

definition demo_deps :: "(string, string) deps" where
  "demo_deps =
     \<lparr>courses = [42 \<mapsto> informatica],
      ToICS = (\<lambda>tt. \<lparr>CalName = [], CalDescription = [], Components = tt\<rparr>),
      SerializeTo = (\<lambda>cal. Inr (CalName cal @ ''|'' @ Components cal))\<rparr>"

definition demo_world :: "nanos \<Rightarrow> string world" where
  "demo_world t =
     \<lparr>now_get = t, now_set = t,
      GetTimetable = (\<lambda>course year cur. Inr (''lessons of '' @ Value cur))\<rparr>"

definition down_world :: "nanos \<Rightarrow> string world" where
  "down_world t =
     \<lparr>now_get = t, now_set = t,
      GetTimetable = (\<lambda>course year cur. Inl ''upstream unavailable'')\<rparr>"

definition request :: "string \<Rightarrow> string \<Rightarrow> string \<Rightarrow> Context" where
  "request i a q =
     \<lparr>Params = [''id'' \<mapsto> i, ''anno'' \<mapsto> a],
      QueryValues = (if q = [] then Map.empty else [''curriculum'' \<mapsto> q]),
      Status = 200, Headers = Map.empty, Body = [], Errors = []\<rparr>"

section \<open>Auxiliary facts\<close>

subsection \<open>Decimal strings and cache keys\<close>

lemma ParseUint_loop_digits:
  "ParseUint_loop n s = Inr v \<Longrightarrow> \<forall>c \<in> set s. is_digit c"
  by (induction s arbitrary: n) (auto split: if_splits)

lemma is_digit_not_minus: "is_digit c \<Longrightarrow> c \<noteq> CHR ''-''"
  by (auto simp: is_digit_def)

lemma ParseUint_no_minus:
  assumes "ParseUint s = Inr v"
  shows "s \<noteq> [] \<and> CHR ''-'' \<notin> set s"
proof -
  from assms have ne: "s \<noteq> []" and loop: "ParseUint_loop 0 s = Inr v"
    by (auto simp: ParseUint_def split: if_splits)
  from ParseUint_loop_digits [OF loop] have "CHR ''-'' \<notin> set s"
    using is_digit_not_minus by blast
  with ne show ?thesis by simp
qed

lemma ParseInt_Inr_ParseUint:
  assumes "ParseInt s = Inr v"
  shows "\<exists>un. ParseUint (if hd s = CHR ''+'' \<or> hd s = CHR ''-'' then tl s else s) = Inr un"
  using assms
  by (auto simp: ParseInt_def Let_def split: if_splits sum.splits NumError.splits)

lemma Atoi_shape:
  assumes "Atoi s = Inr v"
  shows "s \<noteq> [] \<and> CHR ''-'' \<notin> set (tl s)"
proof -
  from assms have p: "ParseInt s = Inr v" by (simp add: Atoi_def)
  then have ne: "s \<noteq> []" by (auto simp: ParseInt_def split: if_splits)
  from ParseInt_Inr_ParseUint [OF p] obtain un where
    u: "ParseUint (if hd s = CHR ''+'' \<or> hd s = CHR ''-'' then tl s else s) = Inr un" ..
  show ?thesis
  proof (cases "hd s = CHR ''+'' \<or> hd s = CHR ''-''")
    case True
    with u have "ParseUint (tl s) = Inr un" by simp
    from ParseUint_no_minus [OF this] ne show ?thesis by simp
  next
    case False
    with u have "ParseUint s = Inr un" by simp
    from ParseUint_no_minus [OF this] have "CHR ''-'' \<notin> set s" by simp
    then have "CHR ''-'' \<notin> set (tl s)" using ne by (cases s) auto
    with ne show ?thesis by simp
  qed
qed

lemma cacheKey_inject:
  assumes k: "a @ ''-'' @ x = b @ ''-'' @ y"
    and a: "a \<noteq> []" "CHR ''-'' \<notin> set (tl a)"
    and b: "b \<noteq> []" "CHR ''-'' \<notin> set (tl b)"
  shows "a = b \<and> x = y"
proof -
  have pre: "\<And>p q u v. p @ ''-'' @ u = q @ ''-'' @ v \<Longrightarrow> p \<noteq> [] \<Longrightarrow>
      CHR ''-'' \<notin> set (tl q) \<Longrightarrow> \<not> (\<exists>r. r \<noteq> [] \<and> q = p @ r)"
  proof
    fix p q u v :: string
    assume e: "p @ ''-'' @ u = q @ ''-'' @ v" and p: "p \<noteq> []"
      and q: "CHR ''-'' \<notin> set (tl q)" and "\<exists>r. r \<noteq> [] \<and> q = p @ r"
    then obtain r where r: "r \<noteq> []" "q = p @ r" by blast
    with e have "''-'' @ u = r @ ''-'' @ v" by simp
    with r(1) have "hd r = CHR ''-''" by (cases r) auto
    with r(1) have "CHR ''-'' \<in> set r" by (cases r) auto
    with p r(2) have "CHR ''-'' \<in> set (tl q)" by (cases p) auto
    with q show False by simp
  qed
  from k have "(\<exists>r. a = b @ r \<and> r @ ''-'' @ x = ''-'' @ y) \<or> (\<exists>r. b = a @ r \<and> ''-'' @ x = r @ ''-'' @ y)"
    by (auto simp: append_eq_append_conv2)
  then have "a = b"
  proof
    assume "\<exists>r. a = b @ r \<and> r @ ''-'' @ x = ''-'' @ y"
    then obtain r where r: "a = b @ r" by blast
    from pre [OF k [symmetric] b(1) a(2)] r show ?thesis by (cases "r = []") auto
  next
    assume "\<exists>r. b = a @ r \<and> ''-'' @ x = r @ ''-'' @ y"
    then obtain r where r: "b = a @ r" by blast
    from pre [OF k a(1) b(2)] r show ?thesis by (cases "r = []") auto
  qed
  with k show ?thesis by simp
qed

lemma ParseUint_loop_snoc:
  "ParseUint_loop n (cs @ [c]) =
     (case ParseUint_loop n cs of Inl e \<Rightarrow> Inl e | Inr m \<Rightarrow> ParseUint_loop m [c])"
  by (induction cs arbitrary: n) auto

lemma decimal_digit:
  assumes "k < 10"
  shows "is_digit (char_of (48 + k))" "digit_val (char_of (48 + k)) = int k"
    "char_of (48 + k) \<noteq> CHR ''-''" "char_of (48 + k) \<noteq> CHR ''+''"
proof -
  from assms have v: "of_char (char_of (48 + k)) = 48 + k" by simp
  from v assms show "is_digit (char_of (48 + k))" "digit_val (char_of (48 + k)) = int k"
    by (simp_all add: is_digit_def digit_val_def)
  have "of_char (CHR ''-'') = (45::nat)" "of_char (CHR ''+'') = (43::nat)" by simp_all
  with v have "of_char (char_of (48 + k)) \<noteq> (of_char (CHR ''-'') :: nat)"
    "of_char (char_of (48 + k)) \<noteq> (of_char (CHR ''+'') :: nat)" by simp_all
  then show "char_of (48 + k) \<noteq> CHR ''-''" "char_of (48 + k) \<noteq> CHR ''+''"
    by metis+
qed

lemma ParseUint_loop_nat_digits:
  "int n \<le> maxUint64 \<Longrightarrow> ParseUint_loop 0 (nat_digits n) = Inr (int n)"
proof (induction n rule: nat_digits.induct)
  case (1 n)
  show ?case
  proof (cases "n < 10")
    case True
    then show ?thesis
      by (simp add: nat_digits.simps [of n] decimal_digit maxUint64_def)
  next
    case False
    have m: "n mod 10 < 10" by simp
    from "1.prems" have le: "int (n div 10) \<le> maxUint64" by (simp add: maxUint64_def)
    from "1.IH" [OF False le] have
      pre: "ParseUint_loop 0 (nat_digits (n div 10)) = Inr (int (n div 10))" .
    have "int (n div 10 * 10 + n mod 10) = int n" by simp
    then have "int (n div 10) * 10 + int (n mod 10) = int n"
      by (simp only: of_nat_add of_nat_mult of_nat_numeral)
    moreover from "1.prems" have "int (n div 10) < maxUint64 div 10 + 1"
      by (simp add: maxUint64_def)
    ultimately show ?thesis using False "1.prems"
      by (simp add: nat_digits.simps [of n] ParseUint_loop_snoc pre decimal_digit [OF m])
  qed
qed

lemma nat_digits_shape: "nat_digits n \<noteq> [] \<and> hd (nat_digits n) \<noteq> CHR ''-'' \<and> hd (nat_digits n) \<noteq> CHR ''+''"
proof (induction n rule: nat_digits.induct)
  case (1 n)
  show ?case
  proof (cases "n < 10")
    case True
    then show ?thesis by (simp add: nat_digits.simps [of n] decimal_digit)
  next
    case False
    with "1.IH" show ?thesis by (simp add: nat_digits.simps [of n])
  qed
qed

lemma Atoi_itoa:
  assumes "- (2 ^ 63) \<le> i" "i < 2 ^ 63"
  shows "Atoi (itoa i) = Inr i"
proof (cases "i < 0")
  case True
  with assms have "int (nat (- i)) \<le> maxUint64" by (simp add: maxUint64_def)
  from ParseUint_loop_nat_digits [OF this] True assms nat_digits_shape [of "nat (- i)"]
  show ?thesis
    by (simp add: Atoi_def itoa_def ParseInt_def ParseUint_def)
next
  case False
  with assms have "int (nat i) \<le> maxUint64" by (simp add: maxUint64_def)
  from ParseUint_loop_nat_digits [OF this] False assms nat_digits_shape [of "nat i"]
  show ?thesis
    by (simp add: Atoi_def itoa_def ParseInt_def ParseUint_def)
qed

subsection \<open>The branches of the handler\<close>

lemma getCoursesCal_hit:
  assumes "cache_Get (now_get w) calcache (requestKey c) = Some cal"
  shows "getCoursesCal d w calcache c =
           (calcache, successCalendar c cal, [CacheGet (requestKey c)])"
  using assms by (simp add: getCoursesCal_def)

lemma getCoursesCal_bad_year:
  assumes "cache_Get (now_get w) calcache (requestKey c) = None"
    and "Atoi (Param c ''anno'') = Inl e"
  shows "getCoursesCal d w calcache c =
           (calcache, String StatusBadRequest ''Invalid year'' c, [CacheGet (requestKey c)])"
  using assms by (simp add: getCoursesCal_def)

lemma getCoursesCal_bad_id:
  assumes "cache_Get (now_get w) calcache (requestKey c) = None"
    and "Atoi (Param c ''anno'') = Inr annoInt"
    and "Atoi (Param c ''id'') = Inl e"
  shows "getCoursesCal d w calcache c =
           (calcache, String StatusBadRequest ''Invalid id'' c, [CacheGet (requestKey c)])"
  using assms by (simp add: getCoursesCal_def)

lemma getCoursesCal_unknown_course:
  assumes "cache_Get (now_get w) calcache (requestKey c) = None"
    and "Atoi (Param c ''anno'') = Inr annoInt"
    and "Atoi (Param c ''id'') = Inr idInt"
    and "FindById d idInt = None"
  shows "getCoursesCal d w calcache c =
           (calcache, String StatusNotFound ''Course not found'' c,
            [CacheGet (requestKey c), DirectoryFind idInt])"
  using assms by (simp add: getCoursesCal_def)

lemma getCoursesCal_year_range:
  assumes "cache_Get (now_get w) calcache (requestKey c) = None"
    and "Atoi (Param c ''anno'') = Inr annoInt"
    and "Atoi (Param c ''id'') = Inr idInt"
    and "FindById d idInt = Some course"
    and "annoInt \<le> 0 \<or> annoInt > DurataAnni course"
  shows "getCoursesCal d w calcache c =
           (calcache, String StatusBadRequest ''Invalid year'' c,
            [CacheGet (requestKey c), DirectoryFind idInt])"
  using assms by (simp add: getCoursesCal_def)

lemma getCoursesCal_timetable_error:
  assumes "cache_Get (now_get w) calcache (requestKey c) = None"
    and "Atoi (Param c ''anno'') = Inr annoInt"
    and "Atoi (Param c ''id'') = Inr idInt"
    and "FindById d idInt = Some course"
    and "0 < annoInt" "annoInt \<le> DurataAnni course"
    and "GetTimetable w course annoInt (requestCurriculum c) = Inl err"
  shows "getCoursesCal d w calcache c =
           (calcache,
            String StatusInternalServerError ''Unable to retrieve timetable'' (Error err c),
            [CacheGet (requestKey c), DirectoryFind idInt,
             TimetableFetch course annoInt (requestCurriculum c)])"
  using assms by (simp add: getCoursesCal_def Let_def)

lemma getCoursesCal_serialize_error:
  assumes "cache_Get (now_get w) calcache (requestKey c) = None"
    and "Atoi (Param c ''anno'') = Inr annoInt"
    and "Atoi (Param c ''id'') = Inr idInt"
    and "FindById d idInt = Some course"
    and "0 < annoInt" "annoInt \<le> DurataAnni course"
    and "GetTimetable w course annoInt (requestCurriculum c) = Inr timetable"
    and "SerializeTo d (createCal d timetable course annoInt) = Inl err"
  shows "getCoursesCal d w calcache c =
           (calcache,
            String StatusInternalServerError ''Unable to serialize calendar'' (Error err c),
            [CacheGet (requestKey c), DirectoryFind idInt,
             TimetableFetch course annoInt (requestCurriculum c)])"
  using assms by (simp add: getCoursesCal_def Let_def)

lemma getCoursesCal_synthesis:
  assumes "cache_Get (now_get w) calcache (requestKey c) = None"
    and "Atoi (Param c ''anno'') = Inr annoInt"
    and "Atoi (Param c ''id'') = Inr idInt"
    and "FindById d idInt = Some course"
    and "0 < annoInt" "annoInt \<le> DurataAnni course"
    and "GetTimetable w course annoInt (requestCurriculum c) = Inr timetable"
    and "SerializeTo d (createCal d timetable course annoInt) = Inr buf"
  shows "getCoursesCal d w calcache c =
           (cache_Set (now_set w) calcache (requestKey c) buf, successCalendar c buf,
            [CacheGet (requestKey c), DirectoryFind idInt,
             TimetableFetch course annoInt (requestCurriculum c),
             CacheSet (requestKey c) buf])"
  using assms by (simp add: getCoursesCal_def Let_def)

text \<open>Every run of the handler ends in exactly one of the eight branches.\<close>

lemma getCoursesCal_cases:
  obtains
    (hit) cal where "cache_Get (now_get w) calcache (requestKey c) = Some cal"
  | (bad_year) e where "cache_Get (now_get w) calcache (requestKey c) = None"
      "Atoi (Param c ''anno'') = Inl e"
  | (bad_id) annoInt e where "cache_Get (now_get w) calcache (requestKey c) = None"
      "Atoi (Param c ''anno'') = Inr annoInt" "Atoi (Param c ''id'') = Inl e"
  | (unknown_course) annoInt idInt where "cache_Get (now_get w) calcache (requestKey c) = None"
      "Atoi (Param c ''anno'') = Inr annoInt" "Atoi (Param c ''id'') = Inr idInt"
      "FindById d idInt = None"
  | (year_range) annoInt idInt course where
      "cache_Get (now_get w) calcache (requestKey c) = None"
      "Atoi (Param c ''anno'') = Inr annoInt" "Atoi (Param c ''id'') = Inr idInt"
      "FindById d idInt = Some course" "annoInt \<le> 0 \<or> annoInt > DurataAnni course"
  | (timetable_error) annoInt idInt course err where
      "cache_Get (now_get w) calcache (requestKey c) = None"
      "Atoi (Param c ''anno'') = Inr annoInt" "Atoi (Param c ''id'') = Inr idInt"
      "FindById d idInt = Some course" "0 < annoInt" "annoInt \<le> DurataAnni course"
      "GetTimetable w course annoInt (requestCurriculum c) = Inl err"
  | (serialize_error) annoInt idInt course timetable err where
      "cache_Get (now_get w) calcache (requestKey c) = None"
      "Atoi (Param c ''anno'') = Inr annoInt" "Atoi (Param c ''id'') = Inr idInt"
      "FindById d idInt = Some course" "0 < annoInt" "annoInt \<le> DurataAnni course"
      "GetTimetable w course annoInt (requestCurriculum c) = Inr timetable"
      "SerializeTo d (createCal d timetable course annoInt) = Inl err"
  | (synthesis) annoInt idInt course timetable buf where
      "cache_Get (now_get w) calcache (requestKey c) = None"
      "Atoi (Param c ''anno'') = Inr annoInt" "Atoi (Param c ''id'') = Inr idInt"
      "FindById d idInt = Some course" "0 < annoInt" "annoInt \<le> DurataAnni course"
      "GetTimetable w course annoInt (requestCurriculum c) = Inr timetable"
      "SerializeTo d (createCal d timetable course annoInt) = Inr buf"
proof (cases "cache_Get (now_get w) calcache (requestKey c)")
  case (Some cal)
  then show ?thesis by (rule hit)
next
  case miss: None
  show ?thesis
  proof (cases "Atoi (Param c ''anno'')")
    case (Inl e)
    with miss show ?thesis by (rule bad_year)
  next
    case y: (Inr annoInt)
    show ?thesis
    proof (cases "Atoi (Param c ''id'')")
      case (Inl e)
      with miss y show ?thesis by (rule bad_id)
    next
      case i: (Inr idInt)
      show ?thesis
      proof (cases "FindById d idInt")
        case None
        with miss y i show ?thesis by (rule unknown_course)
      next
        case crs: (Some course)
        show ?thesis
        proof (cases "annoInt \<le> 0 \<or> annoInt > DurataAnni course")
          case True
          with miss y i crs show ?thesis by (rule year_range)
        next
          case False
          then have r: "0 < annoInt" "annoInt \<le> DurataAnni course" by auto
          show ?thesis
          proof (cases "GetTimetable w course annoInt (requestCurriculum c)")
            case (Inl err)
            with miss y i crs r show ?thesis by (rule timetable_error)
          next
            case tt: (Inr timetable)
            show ?thesis
            proof (cases "SerializeTo d (createCal d timetable course annoInt)")
              case (Inl err)
              with miss y i crs r tt show ?thesis by (rule serialize_error)
            next
              case (Inr buf)
              with miss y i crs r tt show ?thesis by (rule synthesis)
            qed
          qed
        qed
      qed
    qed
  qed
qed

subsection \<open>Responses\<close>

lemma Status_String [simp]: "Status (String code s c) = code"
  by (simp add: String_def)

lemma Body_String [simp]: "Body (String code s c) = Body c @ s"
  by (simp add: String_def)

lemma Status_successCalendar [simp]: "Status (successCalendar c cal) = StatusOK"
  by (simp add: successCalendar_def)

lemma Body_successCalendar [simp]: "Body (successCalendar c cal) = Body c @ cal"
  by (simp add: successCalendar_def String_def Header_def)

lemma Headers_successCalendar:
  "Headers (successCalendar c cal) =
     (Headers c)
       (''Content-Type'' \<mapsto> ''text/calendar; charset=utf-8'',
        ''Content-Disposition'' \<mapsto> ''attachment; filename=lezioni.ics'',
        ''Access-Control-Allow-Origin'' \<mapsto> ''*'',
        ''Access-Control-Allow-Headers'' \<mapsto>
          ''Content-Type, Content-Length, Accept-Encoding, Authorization'',
        ''Access-Control-Allow-Methods'' \<mapsto> ''GET, HEAD, OPTIONS'')"
  by (simp add: successCalendar_def String_def Header_def)

lemma status_codes_distinct [simp]:
  "StatusBadRequest \<noteq> StatusOK" "StatusNotFound \<noteq> StatusOK"
  "StatusInternalServerError \<noteq> StatusOK" "StatusOK \<noteq> StatusBadRequest"
  "StatusOK \<noteq> StatusNotFound" "StatusOK \<noteq> StatusInternalServerError"
  "StatusInternalServerError \<noteq> StatusBadRequest" "StatusInternalServerError \<noteq> StatusNotFound"
  "StatusNotFound \<noteq> StatusBadRequest" "StatusBadRequest \<noteq> StatusNotFound"
  by (simp_all add: StatusOK_def StatusBadRequest_def StatusNotFound_def
      StatusInternalServerError_def)

subsection \<open>The cache\<close>

lemma cache_Get_Set_same:
  "now' \<le> now + defaultExpiration \<Longrightarrow>
   cache_Get now' (cache_Set now items k x) k = Some x"
  by (simp add: cache_Get_def cache_Set_def expired_def Let_def)

lemma cache_Set_other: "k' \<noteq> k \<Longrightarrow> cache_Set now items k x k' = items k'"
  by (simp add: cache_Set_def Let_def)

lemma cache_Set_same:
  "cache_Set now items k x k = Some \<lparr>Object = x, Expiration = now + defaultExpiration\<rparr>"
  by (simp add: cache_Set_def Let_def defaultExpiration_def Minute_def)

lemma cache_Get_None_iff:
  "cache_Get now items k = None \<longleftrightarrow> (\<forall>item. items k = Some item \<longrightarrow> expired now item)"
  by (auto simp: cache_Get_def split: option.splits)

lemma cache_Get_Some_iff:
  "cache_Get now items k = Some x \<longleftrightarrow>
     (\<exists>item. items k = Some item \<and> \<not> expired now item \<and> Object item = x)"
  by (auto simp: cache_Get_def split: option.splits)

lemma DeleteExpired_Some:
  "DeleteExpired now items k = Some item \<Longrightarrow> items k = Some item"
  by (auto simp: DeleteExpired_def split: option.splits if_splits)

subsection \<open>What the cache holds\<close>

lemma synthesized_request:
  assumes "Atoi (Param c ''anno'') = Inr annoInt" "Atoi (Param c ''id'') = Inr idInt"
    "FindById d idInt = Some course" "0 < annoInt" "annoInt \<le> DurataAnni course"
    "SerializeTo d (createCal d timetable course annoInt) = Inr buf"
  shows "synthesized d (requestKey c) buf"
  unfolding synthesized_def using assms by blast

lemma getCoursesCal_entries:
  assumes inv: "\<And>k item. calcache k = Some item \<Longrightarrow> synthesized d k (Object item)"
    and entry: "fst (getCoursesCal d w calcache c) k = Some item"
  shows "synthesized d k (Object item)"
proof (cases rule: getCoursesCal_cases [where w = w and calcache = calcache and c = c and d = d])
  case (hit cal)
  with entry inv show ?thesis by (simp add: getCoursesCal_hit)
next
  case (bad_year e)
  with entry inv show ?thesis by (simp add: getCoursesCal_bad_year)
next
  case (bad_id annoInt e)
  with entry inv show ?thesis by (simp add: getCoursesCal_bad_id)
next
  case (unknown_course annoInt idInt)
  with entry inv show ?thesis by (simp add: getCoursesCal_unknown_course)
next
  case (year_range annoInt idInt course)
  with entry inv show ?thesis by (simp add: getCoursesCal_year_range)
next
  case (timetable_error annoInt idInt course err)
  with entry inv show ?thesis by (simp add: getCoursesCal_timetable_error)
next
  case (serialize_error annoInt idInt course timetable err)
  with entry inv show ?thesis by (simp add: getCoursesCal_serialize_error)
next
  case (synthesis annoInt idInt course timetable buf)
  then have run: "fst (getCoursesCal d w calcache c) =
      cache_Set (now_set w) calcache (requestKey c) buf"
    by (simp add: getCoursesCal_synthesis)
  show ?thesis
  proof (cases "k = requestKey c")
    case True
    with entry run have "Object item = buf" by (auto simp: cache_Set_same)
    moreover have "synthesized d (requestKey c) buf"
      using synthesis by (intro synthesized_request)
    ultimately show ?thesis using True by simp
  next
    case False
    with entry run have "calcache k = Some item" by (simp add: cache_Set_other)
    then show ?thesis by (rule inv)
  qed
qed

lemma getCoursesCal_CacheSet:
  assumes "CacheSet k buf \<in> set (snd (snd (getCoursesCal d w calcache c)))"
  shows "k = requestKey c \<and> synthesized d k buf"
proof (cases rule: getCoursesCal_cases [where w = w and calcache = calcache and c = c and d = d])
  case (hit cal)
  from getCoursesCal_hit [where d = d, OF this] assms show ?thesis by simp
next
  case (bad_year e)
  from getCoursesCal_bad_year [where d = d, OF this] assms show ?thesis by simp
next
  case (bad_id annoInt e)
  from getCoursesCal_bad_id [where d = d, OF this] assms show ?thesis by simp
next
  case (unknown_course annoInt idInt)
  from getCoursesCal_unknown_course [OF this] assms show ?thesis by simp
next
  case (year_range annoInt idInt course)
  from getCoursesCal_year_range [OF this] assms show ?thesis by simp
next
  case (timetable_error annoInt idInt course err)
  from getCoursesCal_timetable_error [OF this] assms show ?thesis by simp
next
  case (serialize_error annoInt idInt course timetable err)
  from getCoursesCal_serialize_error [OF this] assms show ?thesis by simp
next
  case (synthesis annoInt idInt course timetable buf')
  from getCoursesCal_synthesis [OF synthesis] assms
  have "k = requestKey c" "buf = buf'" by simp_all
  moreover have "synthesized d (requestKey c) buf'"
    using synthesis by (intro synthesized_request)
  ultimately show ?thesis by simp
qed

lemma reachable_entries:
  assumes "reachable d calcache"
  shows "calcache k = Some item \<Longrightarrow> synthesized d k (Object item)"
  using assms
proof (induction arbitrary: k item rule: reachable.induct)
  case reachable_new
  then show ?case by simp
next
  case (reachable_request calcache w c)
  show ?case
    by (rule getCoursesCal_entries [OF reachable_request.IH reachable_request.prems])
next
  case (reachable_sweep calcache now)
  from reachable_sweep.prems have "calcache k = Some item" by (rule DeleteExpired_Some)
  then show ?case by (rule reachable_sweep.IH)
next
  case (reachable_overlap calcache calcache0 k' buf w c)
  from getCoursesCal_CacheSet [OF reachable_overlap.hyps(3)]
  have new: "synthesized d k' buf" by (rule conjunct2)
  show ?case
  proof (cases "k = k'")
    case True
    with reachable_overlap.prems have "Object item = buf" by (auto simp: cache_Set_same)
    with new True show ?thesis by simp
  next
    case False
    with reachable_overlap.prems have "calcache k = Some item" by (simp add: cache_Set_other)
    then show ?thesis by (rule reachable_overlap.IH(1))
  qed
qed

text \<open>
  In a reachable cache, a request with a numeric course id finds an entry only under the
  very pair of path strings that stored it.
\<close>

lemma reachable_hit_valid:
  assumes r: "reachable d calcache"
    and entry: "calcache (requestKey c) = Some item"
    and i: "Atoi (Param c ''id'') = Inr idInt"
  shows "\<exists>annoInt course. Atoi (Param c ''anno'') = Inr annoInt \<and>
           FindById d idInt = Some course \<and> 0 < annoInt \<and> annoInt \<le> DurataAnni course"
proof -
  from reachable_entries [OF r entry] obtain ident anno idInt' annoInt course timetable where
    k: "requestKey c = ident @ ''-'' @ anno"
    and v: "Atoi ident = Inr idInt'" "Atoi anno = Inr annoInt"
      "FindById d idInt' = Some course" "0 < annoInt" "annoInt \<le> DurataAnni course"
    unfolding synthesized_def by blast
  from Atoi_shape [OF i] Atoi_shape [OF v(1)] k
  have "Param c ''id'' = ident \<and> Param c ''anno'' = anno"
    by (intro cacheKey_inject) auto
  with i v show ?thesis by auto
qed

lemma cache_Get_Set_other:
  "k' \<noteq> k \<Longrightarrow> cache_Get now' (cache_Set now items k x) k' = cache_Get now' items k'"
  by (simp add: cache_Get_def cache_Set_other)

subsection \<open>The small instance, evaluated\<close>

lemma Param_request [simp]:
  "Param (request i a q) ''id'' = i" "Param (request i a q) ''anno'' = a"
  by (simp_all add: Param_def request_def)

lemma Query_request [simp]: "Query (request i a q) ''curriculum'' = q"
  by (simp add: Query_def request_def)

lemma Atoi_examples:
  "Atoi ''42'' = Inr 42" "Atoi ''+42'' = Inr 42" "Atoi ''1'' = Inr 1" "Atoi ''01'' = Inr 1"
  "Atoi ''5'' = Inr 5" "Atoi ''9999'' = Inr 9999" "Atoi ''abc'' = Inl ErrSyntax"
  "Atoi ''x'' = Inl ErrSyntax" "Atoi ''y'' = Inl ErrSyntax"
  by code_simp+

lemma itoa_examples: "itoa 1 = ''1''" "itoa 0 = ''0''" "itoa (- 15) = ''-15''" "itoa 2024 = ''2024''"
  by code_simp+

lemma FindById_demo [simp]:
  "FindById demo_deps 42 = Some informatica" "FindById demo_deps 9999 = None"
  by (simp_all add: FindById_def demo_deps_def)

lemma DurataAnni_informatica [simp]: "DurataAnni informatica = 3"
  by (simp add: informatica_def)

lemma demo_world_simps [simp]:
  "now_get (demo_world t) = t" "now_set (demo_world t) = t"
  "GetTimetable (demo_world t) course year cur = Inr (''lessons of '' @ Value cur)"
  "now_get (down_world t) = t" "now_set (down_world t) = t"
  "GetTimetable (down_world t) course year cur = Inl ''upstream unavailable''"
  by (simp_all add: demo_world_def down_world_def)

lemma SerializeTo_demo [simp]:
  "SerializeTo demo_deps (createCal demo_deps timetable informatica 1) =
     Inr (''Informatica - 1 year|'' @ timetable)"
  by (simp add: demo_deps_def createCal_def SetName_def SetDescription_def informatica_def
      itoa_examples)

lemma cache_Get_empty [simp]: "cache_Get now Map.empty k = None"
  by (simp add: cache_Get_def)

lemma demo_first_request:
  "getCoursesCal demo_deps (demo_world t) Map.empty (request ''42'' ''1'' q) =
     (cache_Set t Map.empty ''42-1'' (''Informatica - 1 year|lessons of '' @ q),
      successCalendar (request ''42'' ''1'' q) (''Informatica - 1 year|lessons of '' @ q),
      [CacheGet ''42-1'', DirectoryFind 42,
       TimetableFetch informatica 1 \<lparr>Value = q\<rparr>,
       CacheSet ''42-1'' (''Informatica - 1 year|lessons of '' @ q)])"
  using getCoursesCal_synthesis [where d = demo_deps and w = "demo_world t"
      and calcache = Map.empty and c = "request ''42'' ''1'' q" and annoInt = 1 and idInt = 42
      and course = informatica and timetable = "''lessons of '' @ q"
      and buf = "''Informatica - 1 year|lessons of '' @ q"]
  by (simp add: Atoi_examples)

section \<open>The claims\<close>

subsection \<open>C1: curriculum tokens and cache entries\<close>

text \<open>
  Claim C1 asks that two requests with the same course id and year but different curriculum
  tokens get independent cache entries and independent synthesis calls. The handler builds
  the key from the two path parameters alone and reads the curriculum only after a miss.
  In the small instance: after \<open>/cal/42/1?curriculum=A\<close> has been served, the request
  \<open>/cal/42/1?curriculum=B\<close> one minute later is answered with the calendar made for
  curriculum A and the timetable source is not asked, although on an empty cache the same
  request yields the calendar of curriculum B.
\<close>

theorem curriculum_ignored_by_cache_key:
  "getCoursesCal demo_deps (demo_world (5 + Minute))
     (fst (getCoursesCal demo_deps (demo_world 5) Map.empty (request ''42'' ''1'' ''A'')))
     (request ''42'' ''1'' ''B'') =
   (fst (getCoursesCal demo_deps (demo_world 5) Map.empty (request ''42'' ''1'' ''A'')),
    successCalendar (request ''42'' ''1'' ''B'') ''Informatica - 1 year|lessons of A'',
    [CacheGet ''42-1'']) \<and>
   getCoursesCal demo_deps (demo_world (5 + Minute)) Map.empty (request ''42'' ''1'' ''B'') =
   (cache_Set (5 + Minute) Map.empty ''42-1'' ''Informatica - 1 year|lessons of B'',
    successCalendar (request ''42'' ''1'' ''B'') ''Informatica - 1 year|lessons of B'',
    [CacheGet ''42-1'', DirectoryFind 42, TimetableFetch informatica 1 \<lparr>Value = ''B''\<rparr>,
     CacheSet ''42-1'' ''Informatica - 1 year|lessons of B''])"
proof -
  have "cache_Get (now_get (demo_world (5 + Minute)))
          (cache_Set 5 Map.empty ''42-1'' ''Informatica - 1 year|lessons of A'')
          (requestKey (request ''42'' ''1'' ''B'')) = Some ''Informatica - 1 year|lessons of A''"
    by (simp add: cache_Get_Set_same defaultExpiration_def Minute_def)
  from getCoursesCal_hit [where d = demo_deps, OF this] demo_first_request [of 5 "''A''"]
    demo_first_request [of "5 + Minute" "''B''"]
  show ?thesis by simp
qed

subsection \<open>C2: validation and the cache lookup\<close>

text \<open>
  Claim C2 says that a request failing validation is rejected without any cache \<open>Get\<close>.
  The handler looks the key up first: for \<open>/cal/42/5\<close> on a three-year course the
  lookup of key \<open>42-5\<close> is the first call it makes.
\<close>

theorem invalid_year_still_queries_cache:
  "Atoi ''5'' = Inr 5 \<and> FindById demo_deps 42 = Some informatica \<and>
   5 > DurataAnni informatica \<and>
   snd (snd (getCoursesCal demo_deps (demo_world 0) Map.empty (request ''42'' ''5'' []))) =
     [CacheGet ''42-5'', DirectoryFind 42]"
  using getCoursesCal_year_range [where d = demo_deps and w = "demo_world 0"
      and calcache = Map.empty and c = "request ''42'' ''5'' []" and annoInt = 5 and idInt = 42
      and course = informatica]
  by (simp add: Atoi_examples)

text \<open>
  Claim C2, amended: when the key of the request has no live cache entry and the year text
  or the id text is not numeric, or the year is out of range for the resolved course, the
  handler answers 400 after that one lookup; the cache is left as it was, nothing is stored
  and the timetable source is not called (the only further call is the directory lookup).
\<close>

theorem validation_failure_after_miss:
  assumes miss: "cache_Get (now_get w) calcache (requestKey c) = None"
    and invalid:
      "(\<exists>e. Atoi (Param c ''anno'') = Inl e) \<or>
       (\<exists>e. Atoi (Param c ''id'') = Inl e) \<or>
       (\<exists>annoInt idInt course.
          Atoi (Param c ''anno'') = Inr annoInt \<and> Atoi (Param c ''id'') = Inr idInt \<and>
          FindById d idInt = Some course \<and> (annoInt \<le> 0 \<or> annoInt > DurataAnni course))"
    and run: "getCoursesCal d w calcache c = (calcache', c', tr)"
  shows "calcache' = calcache \<and> Status c' = StatusBadRequest \<and>
         (c' = String StatusBadRequest ''Invalid year'' c \<or>
          c' = String StatusBadRequest ''Invalid id'' c) \<and>
         (tr = [CacheGet (requestKey c)] \<or>
          (\<exists>idInt. tr = [CacheGet (requestKey c), DirectoryFind idInt]))"
proof (cases rule: getCoursesCal_cases [where w = w and calcache = calcache and c = c and d = d])
  case (hit cal)
  with miss show ?thesis by simp
next
  case (bad_year e)
  from getCoursesCal_bad_year [where d = d, OF this] run show ?thesis by auto
next
  case (bad_id annoInt e)
  from getCoursesCal_bad_id [where d = d, OF this] run show ?thesis by auto
next
  case (unknown_course annoInt idInt)
  with invalid show ?thesis by auto
next
  case (year_range annoInt idInt course)
  from getCoursesCal_year_range [OF this] run show ?thesis by auto
next
  case (timetable_error annoInt idInt course err)
  with invalid show ?thesis by auto
next
  case (serialize_error annoInt idInt course timetable err)
  with invalid show ?thesis by auto
next
  case (synthesis annoInt idInt course timetable buf)
  with invalid show ?thesis by auto
qed

text \<open>
  Witness for C2: \<open>/cal/42/abc\<close> on an empty cache.
\<close>

theorem validation_failure_after_miss_witness:
  "fst (getCoursesCal demo_deps (demo_world 0) Map.empty (request ''42'' ''abc'' [])) = Map.empty \<and>
   Status (fst (snd (getCoursesCal demo_deps (demo_world 0) Map.empty
     (request ''42'' ''abc'' [])))) = StatusBadRequest"
proof -
  obtain calcache' c' tr where
    run: "getCoursesCal demo_deps (demo_world 0) Map.empty (request ''42'' ''abc'' []) =
      (calcache', c', tr)"
    by (cases "getCoursesCal demo_deps (demo_world 0) Map.empty (request ''42'' ''abc'' [])")
  have miss: "cache_Get (now_get (demo_world 0)) Map.empty
      (requestKey (request ''42'' ''abc'' [])) = None"
    by simp
  have invalid:
    "(\<exists>e. Atoi (Param (request ''42'' ''abc'' []) ''anno'') = Inl e) \<or>
     (\<exists>e. Atoi (Param (request ''42'' ''abc'' []) ''id'') = Inl e) \<or>
     (\<exists>annoInt idInt course.
        Atoi (Param (request ''42'' ''abc'' []) ''anno'') = Inr annoInt \<and>
        Atoi (Param (request ''42'' ''abc'' []) ''id'') = Inr idInt \<and>
        FindById demo_deps idInt = Some course \<and>
        (annoInt \<le> 0 \<or> annoInt > DurataAnni course))"
    by (simp add: Atoi_examples)
  from validation_failure_after_miss [OF miss invalid run] run show ?thesis by simp
qed

subsection \<open>C3: unknown course\<close>

text \<open>
  Claim C3 says that an unknown course id yields 404 whatever the year text, non-numeric
  text included. The year is parsed before the directory is consulted:
  \<open>/cal/9999/abc\<close> is answered 400 although course 9999 does not exist and nothing
  is cached.
\<close>

theorem unknown_course_bad_year_text:
  "Atoi ''9999'' = Inr 9999 \<and> FindById demo_deps 9999 = None \<and>
   cache_Get 0 Map.empty ''9999-abc'' = None \<and>
   Status (fst (snd (getCoursesCal demo_deps (demo_world 0) Map.empty
     (request ''9999'' ''abc'' [])))) = StatusBadRequest \<and>
   StatusBadRequest \<noteq> StatusNotFound"
  using getCoursesCal_bad_year [where d = demo_deps and w = "demo_world 0"
      and calcache = Map.empty and c = "request ''9999'' ''abc'' []" and e = ErrSyntax]
  by (simp add: Atoi_examples)

text \<open>
  Claim C3, amended: for a numeric course id that is not in the directory and a key with
  no live cache entry, the handler answers 404 \<open>Course not found\<close> for every year text
  that parses as an integer, whatever its value, and 400 \<open>Invalid year\<close> for a year
  text that does not parse; in both cases the timetable source is not called.
\<close>

theorem unknown_course_not_found:
  assumes miss: "cache_Get (now_get w) calcache (requestKey c) = None"
    and i: "Atoi (Param c ''id'') = Inr idInt"
    and unknown: "FindById d idInt = None"
  shows "(\<forall>annoInt. Atoi (Param c ''anno'') = Inr annoInt \<longrightarrow>
            getCoursesCal d w calcache c =
              (calcache, String StatusNotFound ''Course not found'' c,
               [CacheGet (requestKey c), DirectoryFind idInt])) \<and>
         (\<forall>e. Atoi (Param c ''anno'') = Inl e \<longrightarrow>
            getCoursesCal d w calcache c =
              (calcache, String StatusBadRequest ''Invalid year'' c,
               [CacheGet (requestKey c)]))"
  using miss i unknown
  by (simp add: getCoursesCal_unknown_course getCoursesCal_bad_year)

text \<open>
  Witness for C3: \<open>/cal/9999/1\<close> on an empty cache.
\<close>

theorem unknown_course_not_found_witness:
  "getCoursesCal demo_deps (demo_world 0) Map.empty (request ''9999'' ''1'' []) =
     (Map.empty, String StatusNotFound ''Course not found'' (request ''9999'' ''1'' []),
      [CacheGet ''9999-1'', DirectoryFind 9999])"
proof -
  have miss: "cache_Get (now_get (demo_world 0)) Map.empty
      (requestKey (request ''9999'' ''1'' [])) = None"
    by simp
  have i: "Atoi (Param (request ''9999'' ''1'' []) ''id'') = Inr 9999"
    by (simp add: Atoi_examples)
  from unknown_course_not_found [OF miss i FindById_demo(2)] show ?thesis
    by (simp add: Atoi_examples)
qed

subsection \<open>C4: repeated requests\<close>

text \<open>
  Claim C4: when a request has succeeded, the cache holds an entry under its key whose
  object is the body just sent; if the first request was a miss, the entry expires ten
  minutes after the clock reading of the \<open>Set\<close>. A second, identical request that
  arrives while that entry has not expired gets the very same response and makes a single
  call, the cache lookup, whatever the timetable source would answer by then.
\<close>

theorem repeated_request_served_from_cache:
  assumes first: "getCoursesCal d w1 calcache c = (calcache1, c1, tr1)"
    and ok: "Status c1 = StatusOK"
  shows "\<exists>item. calcache1 (requestKey c) = Some item \<and>
           c1 = successCalendar c (Object item) \<and>
           (cache_Get (now_get w1) calcache (requestKey c) = None \<longrightarrow>
              Expiration item = now_set w1 + defaultExpiration) \<and>
           (\<not> expired (now_get w2) item \<longrightarrow>
              getCoursesCal d2 w2 calcache1 c = (calcache1, c1, [CacheGet (requestKey c)]))"
proof (cases rule: getCoursesCal_cases [where w = w1 and calcache = calcache and c = c and d = d])
  case (hit cal)
  from getCoursesCal_hit [where d = d, OF hit] first
  have eq: "calcache1 = calcache" "c1 = successCalendar c cal" by simp_all
  from hit obtain item where item: "calcache (requestKey c) = Some item" "Object item = cal"
    by (auto simp: cache_Get_Some_iff)
  have "getCoursesCal d2 w2 calcache c = (calcache, c1, [CacheGet (requestKey c)])"
    if "\<not> expired (now_get w2) item"
  proof -
    from that item have "cache_Get (now_get w2) calcache (requestKey c) = Some cal"
      by (auto simp: cache_Get_Some_iff)
    from getCoursesCal_hit [where d = d2, OF this] eq show ?thesis by simp
  qed
  with eq item hit show ?thesis by auto
next
  case (bad_year e)
  from getCoursesCal_bad_year [where d = d, OF this] first ok show ?thesis by auto
next
  case (bad_id annoInt e)
  from getCoursesCal_bad_id [where d = d, OF this] first ok show ?thesis by auto
next
  case (unknown_course annoInt idInt)
  from getCoursesCal_unknown_course [OF this] first ok show ?thesis by auto
next
  case (year_range annoInt idInt course)
  from getCoursesCal_year_range [OF this] first ok show ?thesis by auto
next
  case (timetable_error annoInt idInt course err)
  from getCoursesCal_timetable_error [OF this] first ok show ?thesis by auto
next
  case (serialize_error annoInt idInt course timetable err)
  from getCoursesCal_serialize_error [OF this] first ok show ?thesis by auto
next
  case (synthesis annoInt idInt course timetable buf)
  from getCoursesCal_synthesis [OF synthesis] first
  have eq: "calcache1 = cache_Set (now_set w1) calcache (requestKey c) buf"
    "c1 = successCalendar c buf" by simp_all
  let ?item = "\<lparr>Object = buf, Expiration = now_set w1 + defaultExpiration\<rparr>"
  have item: "calcache1 (requestKey c) = Some ?item"
    by (simp add: eq cache_Set_same)
  have "getCoursesCal d2 w2 calcache1 c = (calcache1, c1, [CacheGet (requestKey c)])"
    if "\<not> expired (now_get w2) ?item"
  proof -
    from that item have "cache_Get (now_get w2) calcache1 (requestKey c) = Some buf"
      by (auto simp: cache_Get_Some_iff)
    from getCoursesCal_hit [where d = d2, OF this] eq show ?thesis by simp
  qed
  with eq item show ?thesis by auto
qed

text \<open>
  Witness for C4: the second request comes one minute later, with the timetable source
  down.
\<close>

theorem repeated_request_witness:
  "getCoursesCal demo_deps (down_world (5 + Minute))
     (fst (getCoursesCal demo_deps (demo_world 5) Map.empty (request ''42'' ''1'' ''A'')))
     (request ''42'' ''1'' ''A'') =
   (fst (getCoursesCal demo_deps (demo_world 5) Map.empty (request ''42'' ''1'' ''A'')),
    fst (snd (getCoursesCal demo_deps (demo_world 5) Map.empty (request ''42'' ''1'' ''A''))),
    [CacheGet ''42-1''])"
proof -
  have ok: "Status (successCalendar (request ''42'' ''1'' ''A'')
      (''Informatica - 1 year|lessons of '' @ ''A'')) = StatusOK"
    by simp
  from repeated_request_served_from_cache [OF demo_first_request ok,
      where ?w2.0 = "down_world (5 + Minute)" and ?d2.0 = demo_deps]
  show ?thesis
    by (auto simp: demo_first_request cache_Set_same expired_def defaultExpiration_def Minute_def)
qed

subsection \<open>C5: failures are not cached\<close>

text \<open>
  Claim C5: in every cache state the server can reach, a run of the handler that does not
  answer 200 leaves the cache as it was and makes no \<open>Set\<close>; after any run, every
  entry of the cache holds the serialization of a calendar built by \<open>createCal\<close> for
  the course and year its key names. The status is always one of 200, 400, 404 and 500.
\<close>

theorem errors_leave_cache_unchanged:
  assumes r: "reachable d calcache"
    and run: "getCoursesCal d w calcache c = (calcache', c', tr)"
  shows "(Status c' \<noteq> StatusOK \<longrightarrow> calcache' = calcache \<and> (\<forall>k b. CacheSet k b \<notin> set tr)) \<and>
         (\<forall>k item. calcache' k = Some item \<longrightarrow> synthesized d k (Object item)) \<and>
         Status c' \<in> {StatusOK, StatusBadRequest, StatusNotFound, StatusInternalServerError}"
proof -
  have entries: "\<forall>k item. calcache' k = Some item \<longrightarrow> synthesized d k (Object item)"
  proof (intro allI impI)
    fix k item assume "calcache' k = Some item"
    with run have "fst (getCoursesCal d w calcache c) k = Some item" by simp
    then show "synthesized d k (Object item)"
      using reachable_entries [OF r] by (rule getCoursesCal_entries [rotated])
  qed
  have "(Status c' \<noteq> StatusOK \<longrightarrow> calcache' = calcache \<and> (\<forall>k b. CacheSet k b \<notin> set tr)) \<and>
        Status c' \<in> {StatusOK, StatusBadRequest, StatusNotFound, StatusInternalServerError}"
  proof (cases rule: getCoursesCal_cases [where w = w and calcache = calcache and c = c and d = d])
    case (hit cal)
    from getCoursesCal_hit [where d = d, OF this] run show ?thesis by auto
  next
    case (bad_year e)
    from getCoursesCal_bad_year [where d = d, OF this] run show ?thesis by auto
  next
    case (bad_id annoInt e)
    from getCoursesCal_bad_id [where d = d, OF this] run show ?thesis by auto
  next
    case (unknown_course annoInt idInt)
    from getCoursesCal_unknown_course [OF this] run show ?thesis by auto
  next
    case (year_range annoInt idInt course)
    from getCoursesCal_year_range [OF this] run show ?thesis by auto
  next
    case (timetable_error annoInt idInt course err)
    from getCoursesCal_timetable_error [OF this] run show ?thesis by auto
  next
    case (serialize_error annoInt idInt course timetable err)
    from getCoursesCal_serialize_error [OF this] run show ?thesis by auto
  next
    case (synthesis annoInt idInt course timetable buf)
    from getCoursesCal_synthesis [OF this] run show ?thesis by auto
  qed
  with entries show ?thesis by blast
qed

text \<open>
  Witness for C5: the timetable source is down, the answer is 500 and the cache stays
  empty.
\<close>

theorem errors_leave_cache_unchanged_witness:
  "fst (getCoursesCal demo_deps (down_world 0) Map.empty (request ''42'' ''1'' [])) = Map.empty \<and>
   Status (fst (snd (getCoursesCal demo_deps (down_world 0) Map.empty
     (request ''42'' ''1'' [])))) = StatusInternalServerError"
proof -
  have run: "getCoursesCal demo_deps (down_world 0) Map.empty (request ''42'' ''1'' []) =
      (Map.empty,
       String StatusInternalServerError ''Unable to retrieve timetable''
         (Error ''upstream unavailable'' (request ''42'' ''1'' [])),
       [CacheGet ''42-1'', DirectoryFind 42, TimetableFetch informatica 1 \<lparr>Value = []\<rparr>])"
    using getCoursesCal_timetable_error [where d = demo_deps and w = "down_world 0"
        and calcache = Map.empty and c = "request ''42'' ''1'' []" and annoInt = 1 and idInt = 42
        and course = informatica and err = "''upstream unavailable''"]
    by (simp add: Atoi_examples)
  from errors_leave_cache_unchanged [OF reachable_new run] run show ?thesis by simp
qed

subsection \<open>C6: the year range\<close>

text \<open>
  Claim C6: in every reachable cache state, for a request whose id and year texts are
  numeric and whose course is in the directory, the answer is 400 exactly when the year is
  at most zero or greater than the duration of the course; then it is \<open>Invalid year\<close>
  and the cache is untouched. A year within the range is accepted: the request is served
  from the cache or the timetable source is asked for that course and year.
\<close>

theorem year_accepted_iff_in_range:
  assumes r: "reachable d calcache"
    and i: "Atoi (Param c ''id'') = Inr idInt"
    and y: "Atoi (Param c ''anno'') = Inr annoInt"
    and crs: "FindById d idInt = Some course"
    and run: "getCoursesCal d w calcache c = (calcache', c', tr)"
  shows "(Status c' = StatusBadRequest \<longleftrightarrow> annoInt \<le> 0 \<or> annoInt > DurataAnni course) \<and>
         Status c' \<noteq> StatusNotFound \<and>
         (annoInt \<le> 0 \<or> annoInt > DurataAnni course \<longrightarrow>
            calcache' = calcache \<and> c' = String StatusBadRequest ''Invalid year'' c \<and>
            tr = [CacheGet (requestKey c), DirectoryFind idInt]) \<and>
         (1 \<le> annoInt \<and> annoInt \<le> DurataAnni course \<longrightarrow>
            tr = [CacheGet (requestKey c)] \<or>
            TimetableFetch course annoInt (requestCurriculum c) \<in> set tr)"
proof (cases rule: getCoursesCal_cases [where w = w and calcache = calcache and c = c and d = d])
  case (hit cal)
  then obtain item where "calcache (requestKey c) = Some item"
    by (auto simp: cache_Get_Some_iff)
  from reachable_hit_valid [OF r this i] y crs
  have "0 < annoInt" "annoInt \<le> DurataAnni course" by auto
  with getCoursesCal_hit [where d = d, OF hit] run show ?thesis by auto
next
  case (bad_year e)
  with y show ?thesis by simp
next
  case (bad_id annoInt e)
  with i show ?thesis by simp
next
  case (unknown_course annoInt idInt)
  with i crs show ?thesis by simp
next
  case (year_range annoInt' idInt' course')
  with i y crs have same: "annoInt' = annoInt" "idInt' = idInt" "course' = course" by auto
  from getCoursesCal_year_range [OF year_range] year_range(5) run show ?thesis
    unfolding same by auto
next
  case (timetable_error annoInt' idInt' course' err)
  with i y crs have same: "annoInt' = annoInt" "idInt' = idInt" "course' = course" by auto
  from getCoursesCal_timetable_error [OF timetable_error] timetable_error(5,6) run
  show ?thesis unfolding same by auto
next
  case (serialize_error annoInt' idInt' course' timetable err)
  with i y crs have same: "annoInt' = annoInt" "idInt' = idInt" "course' = course" by auto
  from getCoursesCal_serialize_error [OF serialize_error] serialize_error(5,6) run
  show ?thesis unfolding same by auto
next
  case (synthesis annoInt' idInt' course' timetable buf)
  with i y crs have same: "annoInt' = annoInt" "idInt' = idInt" "course' = course" by auto
  from getCoursesCal_synthesis [OF synthesis] synthesis(5,6) run
  show ?thesis unfolding same by auto
qed

text \<open>
  Witness for C6: course 42 lasts three years; year 5 is refused, year 1 is not.
\<close>

theorem year_accepted_iff_in_range_witness:
  "Status (fst (snd (getCoursesCal demo_deps (demo_world 0) Map.empty
     (request ''42'' ''5'' [])))) = StatusBadRequest \<and>
   Status (fst (snd (getCoursesCal demo_deps (demo_world 0) Map.empty
     (request ''42'' ''1'' [])))) \<noteq> StatusBadRequest"
proof -
  obtain calcache5 c5 tr5 where
    run5: "getCoursesCal demo_deps (demo_world 0) Map.empty (request ''42'' ''5'' []) =
      (calcache5, c5, tr5)"
    by (cases "getCoursesCal demo_deps (demo_world 0) Map.empty (request ''42'' ''5'' [])")
  obtain calcache1 c1 tr1 where
    run1: "getCoursesCal demo_deps (demo_world 0) Map.empty (request ''42'' ''1'' []) =
      (calcache1, c1, tr1)"
    by (cases "getCoursesCal demo_deps (demo_world 0) Map.empty (request ''42'' ''1'' [])")
  have i5: "Atoi (Param (request ''42'' ''5'' []) ''id'') = Inr 42"
    and y5: "Atoi (Param (request ''42'' ''5'' []) ''anno'') = Inr 5"
    and i1: "Atoi (Param (request ''42'' ''1'' []) ''id'') = Inr 42"
    and y1: "Atoi (Param (request ''42'' ''1'' []) ''anno'') = Inr 1"
    by (simp_all add: Atoi_examples)
  from year_accepted_iff_in_range [OF reachable_new i5 y5 FindById_demo(1) run5]
    year_accepted_iff_in_range [OF reachable_new i1 y1 FindById_demo(1) run1] run5 run1
  show ?thesis by simp
qed

subsection \<open>C7: response metadata\<close>

text \<open>
  Claim C7: every answer of the handler with status 200 carries the calendar content type,
  the attachment disposition with the file name \<open>lezioni.ics\<close> and the three
  cross-origin headers.
\<close>

theorem success_response_metadata:
  assumes run: "getCoursesCal d w calcache c = (calcache', c', tr)"
    and ok: "Status c' = StatusOK"
  shows "Headers c' ''Content-Type'' = Some ''text/calendar; charset=utf-8'' \<and>
         Headers c' ''Content-Disposition'' = Some ''attachment; filename=lezioni.ics'' \<and>
         Headers c' ''Access-Control-Allow-Origin'' = Some ''*'' \<and>
         Headers c' ''Access-Control-Allow-Headers'' =
           Some ''Content-Type, Content-Length, Accept-Encoding, Authorization'' \<and>
         Headers c' ''Access-Control-Allow-Methods'' = Some ''GET, HEAD, OPTIONS''"
proof -
  have "\<exists>cal. c' = successCalendar c cal"
  proof (cases rule: getCoursesCal_cases [where w = w and calcache = calcache and c = c and d = d])
    case (hit cal)
    from getCoursesCal_hit [where d = d, OF this] run show ?thesis by auto
  next
    case (bad_year e)
    from getCoursesCal_bad_year [where d = d, OF this] run ok show ?thesis by auto
  next
    case (bad_id annoInt e)
    from getCoursesCal_bad_id [where d = d, OF this] run ok show ?thesis by auto
  next
    case (unknown_course annoInt idInt)
    from getCoursesCal_unknown_course [OF this] run ok show ?thesis by auto
  next
    case (year_range annoInt idInt course)
    from getCoursesCal_year_range [OF this] run ok show ?thesis by auto
  next
    case (timetable_error annoInt idInt course err)
    from getCoursesCal_timetable_error [OF this] run ok show ?thesis by auto
  next
    case (serialize_error annoInt idInt course timetable err)
    from getCoursesCal_serialize_error [OF this] run ok show ?thesis by auto
  next
    case (synthesis annoInt idInt course timetable buf)
    from getCoursesCal_synthesis [OF this] run show ?thesis by auto
  qed
  then obtain cal where "c' = successCalendar c cal" ..
  then show ?thesis by (simp add: Headers_successCalendar)
qed

text \<open>
  Witness for C7: the first request for course 42, year 1.
\<close>

theorem success_response_metadata_witness:
  "Headers (fst (snd (getCoursesCal demo_deps (demo_world 5) Map.empty
     (request ''42'' ''1'' [])))) ''Content-Type'' = Some ''text/calendar; charset=utf-8'' \<and>
   Headers (fst (snd (getCoursesCal demo_deps (demo_world 5) Map.empty
     (request ''42'' ''1'' [])))) ''Access-Control-Allow-Origin'' = Some ''*''"
proof -
  have ok: "Status (successCalendar (request ''42'' ''1'' [])
      (''Informatica - 1 year|lessons of '' @ [])) = StatusOK"
    by simp
  from success_response_metadata [OF demo_first_request ok] show ?thesis
    by (simp add: demo_first_request)
qed

subsection \<open>C8: name and description of the calendar\<close>

text \<open>
  Claim C8: the calendar built by \<open>createCal\<close> is named
  \<open><course description> - <year> year\<close>, its description is the Italian sentence
  \<open>Orario delle lezioni del <year> anno del corso di <course description>\<close>, and its
  components are those of the timetable's conversion. Both strings are the same for every
  timetable and every conversion, given the course and the year; the year is printed in
  decimal, so that \<open>Atoi\<close> reads it back for every 64-bit year.
\<close>

theorem createCal_name_description:
  "CalName (createCal d timetable course year) =
     Descrizione course @ '' - '' @ itoa year @ '' year'' \<and>
   CalDescription (createCal d timetable course year) =
     ''Orario delle lezioni del '' @ itoa year @ '' anno del corso di '' @ Descrizione course \<and>
   Components (createCal d timetable course year) = Components (ToICS d timetable) \<and>
   CalName (createCal d' timetable' course year) = CalName (createCal d timetable course year) \<and>
   CalDescription (createCal d' timetable' course year) =
     CalDescription (createCal d timetable course year) \<and>
   (- (2 ^ 63) \<le> year \<and> year < 2 ^ 63 \<longrightarrow> Atoi (itoa year) = Inr year)"
  by (simp add: createCal_def SetName_def SetDescription_def Atoi_itoa)

text \<open>
  Witness for C8: course Informatica, year 1.
\<close>

theorem createCal_name_description_witness:
  "CalName (createCal demo_deps ''two lectures'' informatica 1) = ''Informatica - 1 year'' \<and>
   CalDescription (createCal demo_deps ''two lectures'' informatica 1) =
     ''Orario delle lezioni del 1 anno del corso di Informatica'' \<and>
   Components (createCal demo_deps ''two lectures'' informatica 1) = ''two lectures'' \<and>
   CalName (createCal demo_deps ''no lectures'' informatica 1) = ''Informatica - 1 year'' \<and>
   - (2 ^ 63) \<le> (1::int) \<and> (1::int) < 2 ^ 63 \<and> Atoi (itoa 1) = Inr 1"
proof -
  have range: "- (2 ^ 63) \<le> (1::int) \<and> (1::int) < 2 ^ 63" by simp
  from createCal_name_description [where d = demo_deps and timetable = "''two lectures''"
      and course = informatica and year = 1 and d' = demo_deps
      and timetable' = "''no lectures''"] range
  show ?thesis
    by (simp add: itoa_examples informatica_def demo_deps_def)
qed

subsection \<open>C9: a cache hit skips validation\<close>

text \<open>
  Claim C9: when the key made of the raw id and year texts has a live entry, the handler
  answers 200 with the cached bytes and its only call is the cache lookup, whatever the
  texts, the directory and the curriculum value are.
\<close>

theorem cache_hit_skips_validation:
  assumes "cache_Get (now_get w) calcache (requestKey c) = Some cal"
  shows "getCoursesCal d w calcache c =
           (calcache, successCalendar c cal, [CacheGet (requestKey c)]) \<and>
         Status (successCalendar c cal) = StatusOK \<and>
         Body (successCalendar c cal) = Body c @ cal"
  using getCoursesCal_hit [where d = d, OF assms] by simp

text \<open>
  Witness for C9: the texts \<open>x\<close> and \<open>y\<close> are not numeric, yet the entry under
  \<open>x-y\<close> is served.
\<close>

theorem cache_hit_skips_validation_witness:
  "Atoi ''x'' = Inl ErrSyntax \<and> Atoi ''y'' = Inl ErrSyntax \<and>
   getCoursesCal demo_deps (down_world 7)
     [''x-y'' \<mapsto> \<lparr>Object = ''BEGIN:VCALENDAR'', Expiration = 9\<rparr>] (request ''x'' ''y'' ''Z'') =
   ([''x-y'' \<mapsto> \<lparr>Object = ''BEGIN:VCALENDAR'', Expiration = 9\<rparr>],
    successCalendar (request ''x'' ''y'' ''Z'') ''BEGIN:VCALENDAR'', [CacheGet ''x-y''])"
proof -
  have "cache_Get (now_get (down_world 7))
      [''x-y'' \<mapsto> \<lparr>Object = ''BEGIN:VCALENDAR'', Expiration = 9\<rparr>]
      (requestKey (request ''x'' ''y'' ''Z'')) = Some ''BEGIN:VCALENDAR''"
    by (simp add: cache_Get_def expired_def)
  from cache_hit_skips_validation [OF this, where d = demo_deps] show ?thesis
    by (simp add: Atoi_examples)
qed

subsection \<open>C10: textual variants of the same numbers\<close>

text \<open>
  Claim C10: two valid requests whose id and year texts parse to the same integers but
  differ as texts have different keys; when neither key has a live entry, each request runs
  the full synthesis, the second one also right after the first, and afterwards the cache
  holds one entry under each key.
\<close>

theorem textual_variants_cached_apart:
  assumes i1: "Atoi (Param c1 ''id'') = Inr idInt" and i2: "Atoi (Param c2 ''id'') = Inr idInt"
    and y1: "Atoi (Param c1 ''anno'') = Inr annoInt"
    and y2: "Atoi (Param c2 ''anno'') = Inr annoInt"
    and differ: "Param c1 ''id'' \<noteq> Param c2 ''id'' \<or> Param c1 ''anno'' \<noteq> Param c2 ''anno''"
    and crs: "FindById d idInt = Some course" and pos: "0 < annoInt"
    and le: "annoInt \<le> DurataAnni course"
    and miss1: "cache_Get (now_get w1) calcache (requestKey c1) = None"
    and miss2: "cache_Get (now_get w2) calcache (requestKey c2) = None"
    and t1: "GetTimetable w1 course annoInt (requestCurriculum c1) = Inr timetable1"
    and s1: "SerializeTo d (createCal d timetable1 course annoInt) = Inr buf1"
    and t2: "GetTimetable w2 course annoInt (requestCurriculum c2) = Inr timetable2"
    and s2: "SerializeTo d (createCal d timetable2 course annoInt) = Inr buf2"
  shows "requestKey c1 \<noteq> requestKey c2 \<and>
         getCoursesCal d w1 calcache c1 =
           (cache_Set (now_set w1) calcache (requestKey c1) buf1, successCalendar c1 buf1,
            [CacheGet (requestKey c1), DirectoryFind idInt,
             TimetableFetch course annoInt (requestCurriculum c1),
             CacheSet (requestKey c1) buf1]) \<and>
         getCoursesCal d w2 (cache_Set (now_set w1) calcache (requestKey c1) buf1) c2 =
           (cache_Set (now_set w2) (cache_Set (now_set w1) calcache (requestKey c1) buf1)
              (requestKey c2) buf2,
            successCalendar c2 buf2,
            [CacheGet (requestKey c2), DirectoryFind idInt,
             TimetableFetch course annoInt (requestCurriculum c2),
             CacheSet (requestKey c2) buf2]) \<and>
         cache_Set (now_set w2) (cache_Set (now_set w1) calcache (requestKey c1) buf1)
           (requestKey c2) buf2 (requestKey c1) =
           Some \<lparr>Object = buf1, Expiration = now_set w1 + defaultExpiration\<rparr> \<and>
         cache_Set (now_set w2) (cache_Set (now_set w1) calcache (requestKey c1) buf1)
           (requestKey c2) buf2 (requestKey c2) =
           Some \<lparr>Object = buf2, Expiration = now_set w2 + defaultExpiration\<rparr>"
proof -
  have keys: "requestKey c1 \<noteq> requestKey c2"
  proof
    assume "requestKey c1 = requestKey c2"
    with Atoi_shape [OF i1] Atoi_shape [OF i2]
    have "Param c1 ''id'' = Param c2 ''id'' \<and> Param c1 ''anno'' = Param c2 ''anno''"
      by (intro cacheKey_inject) auto
    with differ show False by blast
  qed
  have run1: "getCoursesCal d w1 calcache c1 =
      (cache_Set (now_set w1) calcache (requestKey c1) buf1, successCalendar c1 buf1,
       [CacheGet (requestKey c1), DirectoryFind idInt,
        TimetableFetch course annoInt (requestCurriculum c1), CacheSet (requestKey c1) buf1])"
    by (rule getCoursesCal_synthesis [OF miss1 y1 i1 crs pos le t1 s1])
  from keys miss2
  have "cache_Get (now_get w2) (cache_Set (now_set w1) calcache (requestKey c1) buf1)
          (requestKey c2) = None"
    by (simp add: cache_Get_Set_other)
  from getCoursesCal_synthesis [OF this y2 i2 crs pos le t2 s2]
  have run2: "getCoursesCal d w2 (cache_Set (now_set w1) calcache (requestKey c1) buf1) c2 =
      (cache_Set (now_set w2) (cache_Set (now_set w1) calcache (requestKey c1) buf1)
         (requestKey c2) buf2,
       successCalendar c2 buf2,
       [CacheGet (requestKey c2), DirectoryFind idInt,
        TimetableFetch course annoInt (requestCurriculum c2), CacheSet (requestKey c2) buf2])" .
  from keys have "cache_Set (now_set w2) (cache_Set (now_set w1) calcache (requestKey c1) buf1)
      (requestKey c2) buf2 (requestKey c1) =
      Some \<lparr>Object = buf1, Expiration = now_set w1 + defaultExpiration\<rparr>"
    by (simp add: cache_Set_other cache_Set_same)
  with keys run1 run2 show ?thesis by (simp add: cache_Set_same)
qed

text \<open>
  Witness for C10: \<open>/cal/42/1\<close> followed by \<open>/cal/+42/01\<close>.
\<close>

theorem textual_variants_cached_apart_witness:
  "getCoursesCal demo_deps (demo_world 6)
     (fst (getCoursesCal demo_deps (demo_world 5) Map.empty (request ''42'' ''1'' [])))
     (request ''+42'' ''01'' []) =
   (cache_Set 6 (cache_Set 5 Map.empty ''42-1'' ''Informatica - 1 year|lessons of '')
      ''+42-01'' ''Informatica - 1 year|lessons of '',
    successCalendar (request ''+42'' ''01'' []) ''Informatica - 1 year|lessons of '',
    [CacheGet ''+42-01'', DirectoryFind 42, TimetableFetch informatica 1 \<lparr>Value = []\<rparr>,
     CacheSet ''+42-01'' ''Informatica - 1 year|lessons of ''])"
proof -
  have i1: "Atoi (Param (request ''42'' ''1'' []) ''id'') = Inr 42"
    and i2: "Atoi (Param (request ''+42'' ''01'' []) ''id'') = Inr 42"
    and y1: "Atoi (Param (request ''42'' ''1'' []) ''anno'') = Inr 1"
    and y2: "Atoi (Param (request ''+42'' ''01'' []) ''anno'') = Inr 1"
    by (simp_all add: Atoi_examples)
  have differ: "Param (request ''42'' ''1'' []) ''id'' \<noteq> Param (request ''+42'' ''01'' []) ''id'' \<or>
      Param (request ''42'' ''1'' []) ''anno'' \<noteq> Param (request ''+42'' ''01'' []) ''anno''"
    by simp
  have pos: "0 < (1::int)" and le: "1 \<le> DurataAnni informatica" by simp_all
  have miss1: "cache_Get (now_get (demo_world 5)) Map.empty
      (requestKey (request ''42'' ''1'' [])) = None"
    and miss2: "cache_Get (now_get (demo_world 6)) Map.empty
      (requestKey (request ''+42'' ''01'' [])) = None"
    by simp_all
  have t1: "GetTimetable (demo_world 5) informatica 1 (requestCurriculum (request ''42'' ''1'' []))
      = Inr ''lessons of ''"
    and t2: "GetTimetable (demo_world 6) informatica 1
      (requestCurriculum (request ''+42'' ''01'' [])) = Inr ''lessons of ''"
    by simp_all
  have s: "SerializeTo demo_deps (createCal demo_deps ''lessons of '' informatica 1) =
      Inr ''Informatica - 1 year|lessons of ''"
    by simp
  from textual_variants_cached_apart [OF i1 i2 y1 y2 differ FindById_demo(1) pos le
      miss1 miss2 t1 s t2 s]
  show ?thesis by (simp add: demo_first_request)
qed

end
